theory Spec2Isabelle
  imports Main "HOL-Library.Word"
begin

unbundle bit_operations_syntax

section \<open>Bytes, text encodings and the digest used by registerAuth.ts\<close>

text \<open>
  Buffers are lists of 8-bit words. JavaScript strings are modelled as \<^typ>\<open>string\<close>, a list
  of characters with code points below 256; every string the functions below build (base64
  and hex text, fixed keys and messages) lies in the ASCII part of that range.
\<close>

type_synonym byte = "8 word"
type_synonym u32 = "32 word"

text \<open>
  \<open>crypto.randomBytes(n)\<close> reads \<open>n\<close> bytes from the operating system's entropy
  source. The source is a parameter: the stream of bytes it will deliver.
\<close>

definition randomBytes :: "nat \<Rightarrow> (nat \<Rightarrow> byte) \<Rightarrow> byte list" where
  "randomBytes n entropy = map entropy [0..<n]"

subsection \<open>Buffer.toString('base64') and digest('base64')\<close>

definition base64_alphabet :: string where
  "base64_alphabet = ''ABCDEFGHIJKLMNOPQRSTUVWXYZabcdefghijklmnopqrstuvwxyz0123456789+/''"

definition base64_char :: "byte \<Rightarrow> char" where
  "base64_char i = base64_alphabet ! unat i"

fun base64 :: "byte list \<Rightarrow> string" where
  "base64 (a # b # c # rest) =
     base64_char (drop_bit 2 a)
     # base64_char (push_bit 4 (a AND 3) OR drop_bit 4 b)
     # base64_char (push_bit 2 (b AND 15) OR drop_bit 6 c)
     # base64_char (c AND 63)
     # base64 rest"
| "base64 [a, b] =
     [base64_char (drop_bit 2 a),
      base64_char (push_bit 4 (a AND 3) OR drop_bit 4 b),
      base64_char (push_bit 2 (b AND 15)),
      CHR ''='']"
| "base64 [a] =
     [base64_char (drop_bit 2 a), base64_char (push_bit 4 (a AND 3)), CHR ''='', CHR ''='']"
| "base64 [] = []"

subsection \<open>digest('hex')\<close>

definition hex_digit :: "byte \<Rightarrow> char" where
  "hex_digit i = ''0123456789abcdef'' ! unat i"

definition hex :: "byte list \<Rightarrow> string" where
  "hex bs = concat (map (\<lambda>b. [hex_digit (drop_bit 4 b), hex_digit (b AND 15)]) bs)"

subsection \<open>hash.update(text) and hash.update(text, 'utf8')\<close>

text \<open>
  A string given to \<open>update\<close> is hashed as its UTF-8 bytes (the default encoding, and the
  one named in \<open>resolveAuthenticationSession\<close>): one byte below code point 128, two bytes
  from 128 to 255.
\<close>

definition utf8_char :: "char \<Rightarrow> byte list" where
  "utf8_char c =
     (let n = of_char c :: nat in
      if n < 128 then [of_nat n]
      else [0xC0 OR of_nat (n div 64), 0x80 OR of_nat (n mod 64)])"

definition utf8 :: "string \<Rightarrow> byte list" where
  "utf8 s = concat (map utf8_char s)"

subsection \<open>crypto.createHash('sha256')\<close>

text \<open>
  The digest is SHA-256 of FIPS 180-4, which Node's \<open>crypto\<close> module provides: padding to
  512-bit blocks, the 64-entry message schedule and 64 rounds per block on eight 32-bit
  working variables. The round constants and the initial hash value are written in
  decimal.
\<close>

definition K256 :: "u32 list" where
  "K256 = [
   1116352408, 1899447441, 3049323471, 3921009573, 961987163, 1508970993, 2453635748, 2870763221,
   3624381080, 310598401, 607225278, 1426881987, 1925078388, 2162078206, 2614888103, 3248222580,
   3835390401, 4022224774, 264347078, 604807628, 770255983, 1249150122, 1555081692, 1996064986,
   2554220882, 2821834349, 2952996808, 3210313671, 3336571891, 3584528711, 113926993, 338241895,
   666307205, 773529912, 1294757372, 1396182291, 1695183700, 1986661051, 2177026350, 2456956037,
   2730485921, 2820302411, 3259730800, 3345764771, 3516065817, 3600352804, 4094571909, 275423344,
   430227734, 506948616, 659060556, 883997877, 958139571, 1322822218, 1537002063, 1747873779,
   1955562222, 2024104815, 2227730452, 2361852424, 2428436474, 2756734187, 3204031479, 3329325298]"

type_synonym sha_state = "u32 \<times> u32 \<times> u32 \<times> u32 \<times> u32 \<times> u32 \<times> u32 \<times> u32"

definition H256 :: sha_state where
  "H256 = (1779033703, 3144134277, 1013904242, 2773480762,
           1359893119, 2600822924, 528734635, 1541459225)"

definition rotr :: "nat \<Rightarrow> u32 \<Rightarrow> u32" where
  "rotr n x = drop_bit n x OR push_bit (32 - n) x"

definition Ch :: "u32 \<Rightarrow> u32 \<Rightarrow> u32 \<Rightarrow> u32" where
  "Ch x y z = (x AND y) XOR (NOT x AND z)"

definition Maj :: "u32 \<Rightarrow> u32 \<Rightarrow> u32 \<Rightarrow> u32" where
  "Maj x y z = (x AND y) XOR (x AND z) XOR (y AND z)"

definition Sigma0 :: "u32 \<Rightarrow> u32" where
  "Sigma0 x = rotr 2 x XOR rotr 13 x XOR rotr 22 x"

definition Sigma1 :: "u32 \<Rightarrow> u32" where
  "Sigma1 x = rotr 6 x XOR rotr 11 x XOR rotr 25 x"

definition sigma0 :: "u32 \<Rightarrow> u32" where
  "sigma0 x = rotr 7 x XOR rotr 18 x XOR drop_bit 3 x"

definition sigma1 :: "u32 \<Rightarrow> u32" where
  "sigma1 x = rotr 17 x XOR rotr 19 x XOR drop_bit 10 x"

definition be32 :: "byte list \<Rightarrow> u32" where
  "be32 bs = foldl (\<lambda>acc b. push_bit 8 acc OR ucast b) 0 (take 4 bs)"

fun words_of :: "nat \<Rightarrow> byte list \<Rightarrow> u32 list" where
  "words_of 0 bs = []"
| "words_of (Suc n) bs = be32 bs # words_of n (drop 4 bs)"

text \<open>The message schedule is built newest word first: \<open>w = [W(t-1), W(t-2), ...]\<close>.\<close>

fun schedule :: "nat \<Rightarrow> u32 list \<Rightarrow> u32 list" where
  "schedule 0 w = w"
| "schedule (Suc n) w =
     schedule n ((sigma1 (w ! 1) + w ! 6 + sigma0 (w ! 14) + w ! 15) # w)"

fun round256 :: "sha_state \<Rightarrow> u32 \<times> u32 \<Rightarrow> sha_state" where
  "round256 (a, b, c, d, e, f, g, h) (k, w) =
     (let t1 = h + Sigma1 e + Ch e f g + k + w;
          t2 = Sigma0 a + Maj a b c
      in (t1 + t2, a, b, c, d + t1, e, f, g))"

fun add_state :: "sha_state \<Rightarrow> sha_state \<Rightarrow> sha_state" where
  "add_state (a, b, c, d, e, f, g, h) (a', b', c', d', e', f', g', h') =
     (a + a', b + b', c + c', d + d', e + e', f + f', g + g', h + h')"

definition compress :: "sha_state \<Rightarrow> byte list \<Rightarrow> sha_state" where
  "compress hs block =
     add_state hs (foldl round256 hs (zip K256 (rev (schedule 48 (rev (words_of 16 block))))))"

definition be_bytes :: "nat \<Rightarrow> 64 word \<Rightarrow> byte list" where
  "be_bytes n v = map (\<lambda>i. ucast (drop_bit (8 * (n - 1 - i)) v)) [0..<n]"

definition pad256 :: "byte list \<Rightarrow> byte list" where
  "pad256 m =
     m @ [0x80] @ replicate ((119 - length m mod 64) mod 64) 0
       @ be_bytes 8 (of_nat (8 * length m))"

fun blocks :: "nat \<Rightarrow> byte list \<Rightarrow> byte list list" where
  "blocks 0 bs = []"
| "blocks (Suc n) bs = take 64 bs # blocks n (drop 64 bs)"

fun state_bytes :: "sha_state \<Rightarrow> byte list" where
  "state_bytes (a, b, c, d, e, f, g, h) =
     concat (map (\<lambda>w. be_bytes 4 (ucast w)) [a, b, c, d, e, f, g, h])"

definition sha256 :: "byte list \<Rightarrow> byte list" where
  "sha256 m =
     (let p = pad256 m in state_bytes (foldl compress H256 (blocks (length p div 64) p)))"

section \<open>generatePKCE\<close>

record pkce =
  codeVerifier :: string
  codeChallenge :: string

definition generatePKCE :: "(nat \<Rightarrow> byte) \<Rightarrow> pkce" where
  "generatePKCE entropy =
     (let codeVerifier = base64 (randomBytes 32 entropy);
          codeChallenge = base64 (sha256 (utf8 codeVerifier))
      in \<lparr>codeVerifier = codeVerifier, codeChallenge = codeChallenge\<rparr>)"

section \<open>Failures and parsed values\<close>

text \<open>
  A rejected promise or a thrown exception carries one of these: a string given to
  \<open>reject\<close> (\<open>'Cancelled'\<close>, \<open>'Login timed out.'\<close>), the \<open>undefined\<close> of a bare
  \<open>reject()\<close>, the \<open>SyntaxError\<close> of \<open>JSON.parse\<close>, a \<open>TypeError\<close> of the language, or
  an error raised by a collaborator (an RPC call, the browser launch).
\<close>

datatype error =
  Reason string
  | Undefined_reason
  | SyntaxError
  | TypeError
  | External string

text \<open>
  What \<open>JSON.parse\<close> returns is untyped in the source (\<open>any\<close> behind the annotation
  \<open>vscode.AuthenticationSession\<close>), so the model keeps the JSON value. An object is its
  list of members.
\<close>

datatype json =
  JNull
  | JBool bool
  | JNumber int
  | JString string
  | JArray "json list"
  | JObject "(string \<times> json) list"

text \<open>
  \<open>JSON.parse\<close> is the language's built-in. Its grammar is a parameter (the value a
  non-empty text denotes, if any); the empty text is no JSON value and raises
  \<open>SyntaxError\<close>.
\<close>

definition JSON_parse :: "(string \<Rightarrow> json option) \<Rightarrow> string \<Rightarrow> error + json" where
  "JSON_parse grammar text =
     (if text = [] then Inl SyntaxError
      else case grammar text of None \<Rightarrow> Inl SyntaxError | Some v \<Rightarrow> Inr v)"

text \<open>\<open>value.name\<close>: a \<open>TypeError\<close> on \<open>null\<close>, \<open>undefined\<close> (here \<open>None\<close>) where absent.\<close>

fun member :: "json \<Rightarrow> string \<Rightarrow> error + json option" where
  "member JNull name = Inl TypeError"
| "member (JObject ms) name = Inr (map_of ms name)"
| "member _ name = Inr None"

text \<open>\<open>String.prototype.includes\<close>: the argument occurs somewhere in the text.\<close>

definition string_includes :: "string \<Rightarrow> string \<Rightarrow> bool" where
  "string_includes s t = list_ex (\<lambda>i. take (length t) (drop i s) = t) [0..<Suc (length s)]"

text \<open>
  \<open>session.scopes.includes(scope)\<close>: arrays and strings have \<open>includes\<close>; on anything
  else the call is a \<open>TypeError\<close>.
\<close>

definition scopes_includes :: "json \<Rightarrow> string \<Rightarrow> error + bool" where
  "scopes_includes session scope =
     (case member session ''scopes'' of
        Inl e \<Rightarrow> Inl e
      | Inr (Some (JArray xs)) \<Rightarrow> Inr (JString scope \<in> set xs)
      | Inr (Some (JString s)) \<Rightarrow> Inr (string_includes s scope)
      | Inr _ \<Rightarrow> Inl TypeError)"

text \<open>\<open>Array.prototype.every\<close> stops at the first \<open>false\<close> and at the first exception.\<close>

fun every :: "('a \<Rightarrow> error + bool) \<Rightarrow> 'a list \<Rightarrow> error + bool" where
  "every f [] = Inr True"
| "every f (x # xs) =
     (case f x of Inl e \<Rightarrow> Inl e | Inr b \<Rightarrow> if b then every f xs else Inr False)"

text \<open>\<open>Array.prototype.filter\<close> with a predicate that may throw.\<close>

fun filter_array :: "('a \<Rightarrow> error + bool) \<Rightarrow> 'a list \<Rightarrow> error + 'a list" where
  "filter_array f [] = Inr []"
| "filter_array f (x # xs) =
     (case f x of
        Inl e \<Rightarrow> Inl e
      | Inr b \<Rightarrow>
          (case filter_array f xs of
             Inl e \<Rightarrow> Inl e
           | Inr ys \<Rightarrow> Inr (if b then x # ys else ys)))"

section \<open>hasScopes and the provider's getSessions\<close>

text \<open>
  The optional parameter \<open>scopes\<close> is \<open>None\<close> when the caller passes \<open>undefined\<close>. The test
  \<open>!scopes\<close> holds for \<open>undefined\<close> only: an array, also the empty one, is truthy.
\<close>

definition hasScopes :: "json \<Rightarrow> string list option \<Rightarrow> error + bool" where
  "hasScopes session scopes =
     (case scopes of
        None \<Rightarrow> Inr True
      | Some ss \<Rightarrow> every (scopes_includes session) ss)"

type_synonym secrets = "string \<rightharpoonup> string"

text \<open>\<open>x || ''\<close>: the empty string for \<open>undefined\<close> and for the empty string.\<close>

definition or_empty :: "string option \<Rightarrow> string" where
  "or_empty x = (case x of None \<Rightarrow> [] | Some s \<Rightarrow> s)"

definition getSessions ::
  "(string \<Rightarrow> json option) \<Rightarrow> secrets \<Rightarrow> string list option \<Rightarrow> error + json list" where
  "getSessions grammar store scopes =
     (case scopes of
        None \<Rightarrow> Inr []
      | Some ss \<Rightarrow>
          (case JSON_parse grammar (or_empty (store ''gitpod.authSession'')) of
             Inl e \<Rightarrow> Inl e
           | Inr session \<Rightarrow> filter_array (\<lambda>session. hasScopes session (Some ss)) [session]))"



section \<open>promiseFromEvent\<close>

text \<open>
  The function builds two promises: the one made by \<open>new Promise\<close>, whose \<open>resolve\<close> and
  \<open>reject\<close> the adapter and the cancel listener hold (\<open>inner\<close>), and the one returned,
  derived by \<open>.then(onFulfilled, onRejected)\<close> (\<open>outer\<close>). Both handlers of \<open>then\<close> call
  \<open>subscription.dispose()\<close> and pass the result on. The host runs them as a job of the
  microtask queue, as it runs the handler of \<open>.catch(reject)\<close>.
\<close>

datatype 'u promise_state = Pending | Fulfilled 'u | Rejected error

datatype 'u settle = Resolve 'u | Reject error

text \<open>
  One call of the adapter: the calls of \<open>resolve\<close> and \<open>reject\<close> it makes before it
  returns, in order, and how it ends: it returns a value that never rejects, it throws,
  or it returns a promise that is rejected.
\<close>

datatype completion = Returns | Throws error | ReturnsRejected error

type_synonym ('t, 'u) adapter = "'t \<Rightarrow> 'u settle list \<times> completion"

definition passthrough :: "('t, 't) adapter" where
  "passthrough v = ([Resolve v], Returns)"

datatype job = ThenReaction | CatchReaction error

record 'u listening =
  inner :: "'u promise_state"
  outer :: "'u promise_state"
  disposals :: nat
  settlements :: nat
  jobs :: "job list"

text \<open>
  What reaches the promise from outside: the event fires, \<open>cancel.fire()\<close> is called,
  code started by the adapter calls \<open>resolve\<close> or \<open>reject\<close> later, or the host runs the
  next job of the microtask queue.
\<close>

datatype ('t, 'u) input = Emit 't | Cancel | Late "'u settle" | Microtask

definition promiseFromEvent :: "'u listening" where
  "promiseFromEvent =
     \<lparr>inner = Pending, outer = Pending, disposals = 0, settlements = 0, jobs = []\<rparr>"

text \<open>
  \<open>resolve\<close> and \<open>reject\<close> act on a pending promise only; settling it queues the reaction
  registered by \<open>then\<close>.
\<close>

fun settled :: "'u settle \<Rightarrow> 'u promise_state" where
  "settled (Resolve v) = Fulfilled v"
| "settled (Reject e) = Rejected e"

definition settle_inner :: "'u settle \<Rightarrow> 'u listening \<Rightarrow> 'u listening" where
  "settle_inner c st =
     (if inner st = Pending then st\<lparr>inner := settled c, jobs := jobs st @ [ThenReaction]\<rparr>
      else st)"

fun run_job :: "job \<Rightarrow> 'u listening \<Rightarrow> 'u listening" where
  "run_job ThenReaction st =
     st\<lparr>disposals := Suc (disposals st), settlements := Suc (settlements st),
        outer := inner st\<rparr>"
| "run_job (CatchReaction e) st = settle_inner (Reject e) st"

text \<open>
  The listener runs while the subscription is not disposed:
  \<open>try { Promise.resolve(adapter(value, resolve, reject)).catch(reject) } catch (error) { reject(error) }\<close>.
\<close>

definition listener :: "('t, 'u) adapter \<Rightarrow> 't \<Rightarrow> 'u listening \<Rightarrow> 'u listening" where
  "listener adapter v st =
     (case adapter v of
        (calls, ending) \<Rightarrow>
          (let st' = foldl (\<lambda>s c. settle_inner c s) st calls in
           case ending of
             Returns \<Rightarrow> st'
           | Throws e \<Rightarrow> settle_inner (Reject e) st'
           | ReturnsRejected e \<Rightarrow> st'\<lparr>jobs := jobs st' @ [CatchReaction e]\<rparr>))"

fun step :: "('t, 'u) adapter \<Rightarrow> 'u listening \<Rightarrow> ('t, 'u) input \<Rightarrow> 'u listening" where
  "step adapter st (Emit v) = (if disposals st = 0 then listener adapter v st else st)"
| "step adapter st Cancel = settle_inner (Reject Undefined_reason) st"
| "step adapter st (Late c) = settle_inner c st"
| "step adapter st Microtask =
     (case jobs st of [] \<Rightarrow> st | j # js \<Rightarrow> run_job j (st\<lparr>jobs := js\<rparr>))"


text \<open>The host empties the microtask queue before it turns to the next event.\<close>

function drain :: "'u listening \<Rightarrow> 'u listening" where
  "drain st = (case jobs st of [] \<Rightarrow> st | j # js \<Rightarrow> drain (run_job j (st\<lparr>jobs := js\<rparr>)))"
  by pat_completeness auto
termination
proof (relation "measure (\<lambda>st. length (jobs st) + (if inner st = Pending then 1 else 0))")
  fix st :: "'u listening" and j js
  assume "jobs st = j # js"
  then show "(run_job j (st\<lparr>jobs := js\<rparr>), st)
      \<in> measure (\<lambda>st. length (jobs st) + (if inner st = Pending then 1 else 0))"
    by (cases j) (auto simp: settle_inner_def)
qed simp

section \<open>waitForAuthenticationSession\<close>

text \<open>
  The secret store changes by \<open>store(key, value)\<close> and \<open>delete(key)\<close>; each change fires
  \<open>onDidChange\<close> with the key.
\<close>

datatype secret_change = Store string string | Delete string

fun change_key :: "secret_change \<Rightarrow> string" where
  "change_key (Store k v) = k"
| "change_key (Delete k) = k"

fun apply_change :: "secret_change \<Rightarrow> secrets \<Rightarrow> secrets" where
  "apply_change (Store k v) store = store(k \<mapsto> v)"
| "apply_change (Delete k) store = store(k := None)"

definition key_adapter :: "(string, string) adapter" where
  "key_adapter key =
     (if key \<noteq> ''gitpod.authSession'' then ([Reject (Reason ''Cancelled'')], Returns)
      else ([Resolve key], Returns))"

text \<open>
  What the function meets while it runs: a change of the secret store, or the store
  answering the function's pending \<open>context.secrets.get\<close> with what it holds at that
  moment. The microtask queue is emptied after each change; a change that fires before
  that finds the promise settled and is without effect, so nothing depends on it.
\<close>

datatype secret_event = Changed secret_change | Answered

text \<open>
  The function awaits the promise of \<open>promiseFromEvent\<close>; when that is fulfilled it
  calls \<open>context.secrets.get('gitpod.authSession')\<close>, awaits the answer and parses it.
  Changes that land after the promise is fulfilled and before the store answers are in
  what the function reads. \<open>None\<close> is the function still waiting when the events end.
  The second component is the state of the subscription.
\<close>

fun await_get ::
  "(string \<Rightarrow> json option) \<Rightarrow> secrets \<Rightarrow> string listening \<Rightarrow> secret_event list
     \<Rightarrow> (error + json) option \<times> string listening" where
  "await_get grammar store st [] = (None, st)"
| "await_get grammar store st (Changed c # es) =
     await_get grammar (apply_change c store)
       (drain (step key_adapter st (Emit (change_key c)))) es"
| "await_get grammar store st (Answered # es) =
     (Some (JSON_parse grammar (or_empty (store ''gitpod.authSession''))), st)"

fun await_change ::
  "(string \<Rightarrow> json option) \<Rightarrow> secrets \<Rightarrow> string listening \<Rightarrow> secret_event list
     \<Rightarrow> (error + json) option \<times> string listening" where
  "await_change grammar store st [] = (None, st)"
| "await_change grammar store st (Changed c # es) =
     (let store' = apply_change c store;
          st' = drain (step key_adapter st (Emit (change_key c)))
      in case outer st' of
           Pending \<Rightarrow> await_change grammar store' st' es
         | Rejected e \<Rightarrow> (Some (Inl e), st')
         | Fulfilled data \<Rightarrow> await_get grammar store' st' es)"
| "await_change grammar store st (Answered # es) = await_change grammar store st es"

definition waitForAuthenticationSession ::
  "(string \<Rightarrow> json option) \<Rightarrow> secrets \<Rightarrow> secret_event list
     \<Rightarrow> (error + json) option \<times> string listening" where
  "waitForAuthenticationSession grammar store events =
     await_change grammar store promiseFromEvent events"

section \<open>createSession\<close>

text \<open>
  A promise seen from outside: the instant (in milliseconds) at which it settles and with
  what, or \<open>None\<close> when it never settles.
\<close>

type_synonym 'a timed = "(nat \<times> (error + 'a)) option"

text \<open>
  \<open>Promise.race\<close> takes promises and plain values; a plain value counts as a promise
  fulfilled at the call. The race settles as the entry that settles first does, the
  earlier entry of the array on a tie.
\<close>

fun entry_settles :: "nat \<Rightarrow> 'a timed + 'a \<Rightarrow> 'a timed" where
  "entry_settles now (Inr v) = Some (now, Inr v)"
| "entry_settles now (Inl None) = None"
| "entry_settles now (Inl (Some (t, r))) = Some (max now t, r)"

fun earliest :: "'a timed list \<Rightarrow> 'a timed" where
  "earliest [] = None"
| "earliest (None # ps) = earliest ps"
| "earliest (Some (t, r) # ps) =
     (case earliest ps of
        None \<Rightarrow> Some (t, r)
      | Some (t', r') \<Rightarrow> if t' < t then Some (t', r') else Some (t, r))"

definition Promise_race :: "nat \<Rightarrow> ('a timed + 'a) list \<Rightarrow> 'a timed" where
  "Promise_race now entries = earliest (map (entry_settles now) entries)"

text \<open>
  What \<open>createSession\<close> can resolve with: a parsed session record, or a function object
  (named by its identifier).
\<close>

datatype resolution = Record json | Function string

text \<open>
  \<open>createSession\<close> starts at instant \<open>now\<close>. Building the authorization URL has no
  effect on the result; the timer is set before \<open>vscode.env.openExternal\<close> is awaited,
  and \<open>openExternal\<close> is the instant at which that call settles, counted from \<open>now\<close>,
  and how. The second entry of the race is the identifier
  \<open>waitForAuthenticationSession\<close>: the function itself, which the source does not call.
\<close>

definition createSession :: "nat \<Rightarrow> bool timed \<Rightarrow> resolution timed" where
  "createSession now openExternal =
     (let timeoutPromise = Some (now + 1000 * 60 * 5, Inl (Reason ''Login timed out.'')) in
      case openExternal of
        None \<Rightarrow> None
      | Some (d, Inl e) \<Rightarrow> Some (now + d, Inl e)
      | Some (d, Inr opened) \<Rightarrow>
          Promise_race (now + d)
            [Inl timeoutPromise, Inr (Function ''waitForAuthenticationSession'')])"

section \<open>resolveAuthenticationSession\<close>

record user =
  user_id :: string
  name :: "string option"

record account_information =
  label :: "string option"
  account_id :: string

record authentication_session =
  session_id :: string
  account :: account_information
  scopes :: "string list"
  accessToken :: string

datatype rpc = GetLoggedInUser | GetGitpodTokenScopes string

text \<open>
  What happens on the transport and the RPC proxy, in order: the socket is opened with
  the bearer token, a call is sent, a call's promise settles, the socket is closed.
\<close>

datatype occurrence =
  TransportOpened string
  | Issued rpc
  | UserSettled
  | ScopesSettled
  | TransportClosed

text \<open>
  The function runs until it awaits: first the reply of \<open>getLoggedInUser\<close>, then the
  already fulfilled \<open>pendignWebSocket\<close>, which costs one turn of the microtask queue.
  \<open>getGitpodTokenScopes(hash)\<close> is called without \<open>await\<close> and its promise is dropped.
  Below, \<open>requested\<close> is the parameter \<open>scopes\<close> and \<open>token\<close> the parameter
  \<open>accessToken\<close>.
\<close>

datatype stage = AwaitingUser | AwaitingSocket user | Returned

record validation =
  stage :: stage
  trace :: "occurrence list"
  outcome :: "(error + authentication_session) option"

datatype arrival =
  UserReply "error + user"
  | ScopesReply "error + string list"
  | Turn

definition start :: "string list \<Rightarrow> string \<Rightarrow> validation" where
  "start requested token =
     \<lparr>stage = AwaitingUser,
      trace = [TransportOpened token, Issued GetLoggedInUser],
      outcome = None\<rparr>"

definition scopes_call_open :: "validation \<Rightarrow> bool" where
  "scopes_call_open v =
     (list_ex (\<lambda>x. case x of Issued (GetGitpodTokenScopes h) \<Rightarrow> True | _ \<Rightarrow> False) (trace v)
      \<and> ScopesSettled \<notin> set (trace v))"

fun advance :: "string list \<Rightarrow> string \<Rightarrow> validation \<Rightarrow> arrival \<Rightarrow> validation" where
  "advance requested token v (UserReply r) =
     (case stage v of
        AwaitingUser \<Rightarrow>
          (case r of
             Inl e \<Rightarrow>
               v\<lparr>stage := Returned, trace := trace v @ [UserSettled], outcome := Some (Inl e)\<rparr>
           | Inr user \<Rightarrow>
               (let hash = hex (sha256 (utf8 token)) in
                v\<lparr>stage := AwaitingSocket user,
                  trace := trace v @ [UserSettled, Issued (GetGitpodTokenScopes hash)]\<rparr>))
      | _ \<Rightarrow> v)"
| "advance requested token v Turn =
     (case stage v of
        AwaitingSocket user \<Rightarrow>
          v\<lparr>stage := Returned,
            trace := trace v @ [TransportClosed],
            outcome := Some (Inr
              \<lparr>session_id = ''gitpod.user'',
               account = \<lparr>label = name user, account_id = user_id user\<rparr>,
               scopes = requested,
               accessToken = token\<rparr>)\<rparr>
      | _ \<Rightarrow> v)"
| "advance requested token v (ScopesReply r) =
     (if scopes_call_open v then v\<lparr>trace := trace v @ [ScopesSettled]\<rparr> else v)"

definition resolveAuthenticationSession ::
  "string list \<Rightarrow> string \<Rightarrow> arrival list \<Rightarrow> validation" where
  "resolveAuthenticationSession requested token arrivals =
     foldl (advance requested token) (start requested token) arrivals"

section \<open>Concrete inputs\<close>

text \<open>
  A session record as the sign-in callback stores it, the text it is stored as, and a
  grammar that reads that text.
\<close>

definition stored_record :: json where
  "stored_record =
     JObject
       [(''id'', JString ''gitpod.user''),
        (''account'', JObject [(''label'', JString ''Ada''), (''id'', JString ''u-1'')]),
        (''scopes'',
           JArray [JString ''function:accessCodeSyncStorage'', JString ''resource:default'']),
        (''accessToken'', JString ''t0k'')]"

definition stored_grammar :: "string \<Rightarrow> json option" where
  "stored_grammar content = (if content = ''{session}'' then Some stored_record else None)"

text \<open>A grammar that reads the texts \<open>1\<close> and \<open>2\<close> as the numbers they denote.\<close>

definition number_grammar :: "string \<Rightarrow> json option" where
  "number_grammar content =
     (if content = ''1'' then Some (JNumber 1)
      else if content = ''2'' then Some (JNumber 2)
      else None)"

definition example_user :: user where
  "example_user = \<lparr>user_id = ''u-1'', name = Some ''Ada''\<rparr>"

section \<open>Notions used in the proofs\<close>


text \<open>The object literal that \<open>resolveAuthenticationSession\<close> returns for a user.\<close>

definition built :: "string list \<Rightarrow> string \<Rightarrow> user \<Rightarrow> authentication_session" where
  "built requested token u =
     \<lparr>session_id = ''gitpod.user'',
      account = \<lparr>label = name u, account_id = user_id u\<rparr>,
      scopes = requested,
      accessToken = token\<rparr>"

section \<open>Properties of the encodings and of generatePKCE\<close>





text \<open>The digest agrees with the test vector of FIPS 180-4 for the message \<open>abc\<close>.\<close>

lemma sha256_abc:
  "hex (sha256 (utf8 ''abc'')) =
     ''ba7816bf8f01cfea414140de5dae2223b00361a396177a9cb410ff61f20015ad''"
  by code_simp

subsection \<open>The base64 text determines the bytes\<close>



































text \<open>
  With the entropy bytes 0, 1, ..., 31 the verifier
  (\<open>AAECAwQFBgcICQoLDA0ODxAREhMUFRYXGBkaGxwdHh8=\<close>) and the challenge differ.
\<close>

lemma generatePKCE_example_differs:
  "codeVerifier (generatePKCE (\<lambda>i. of_nat i)) \<noteq> codeChallenge (generatePKCE (\<lambda>i. of_nat i))"
  by code_simp


section \<open>Properties of getSessions\<close>




text \<open>
  C4, as amended. A call without scopes (\<open>undefined\<close>) returns the empty result for
  every store. A call with the empty array reads and parses the stored text: it returns
  the stored record when the text parses, and fails as the parse fails.
\<close>

theorem getSessions_without_scopes:
  "getSessions grammar store None = Inr []
   \<and> getSessions grammar store (Some []) =
       (case JSON_parse grammar (or_empty (store ''gitpod.authSession'')) of
          Inl e \<Rightarrow> Inl e
        | Inr session \<Rightarrow> Inr [session])"
  by (simp add: getSessions_def hasScopes_def split: sum.splits)

text \<open>
  C4, as stated, fails: with a session record stored, the request with the empty array
  does not return the empty result.
\<close>

theorem getSessions_empty_array_counterexample:
  "getSessions stored_grammar [''gitpod.authSession'' \<mapsto> ''{session}''] (Some []) \<noteq> Inr []"
  by (simp add: getSessions_def JSON_parse_def or_empty_def hasScopes_def stored_grammar_def)




text \<open>
  C10. When nothing is stored under the key, \<open>getSessions\<close> with an array of scopes
  (so with every non-empty one) does not return the empty result: the missing value
  becomes the empty string, and parsing it fails with \<open>SyntaxError\<close>.
\<close>

theorem getSessions_nothing_stored:
  "store ''gitpod.authSession'' = None \<Longrightarrow>
     getSessions grammar store (Some requested) = Inl SyntaxError"
  by (simp add: getSessions_def JSON_parse_def or_empty_def)

theorem getSessions_nothing_stored_witness:
  "Map.empty ''gitpod.authSession'' = (None :: string option)
   \<and> getSessions stored_grammar Map.empty (Some [''resource:default'']) = Inl SyntaxError"
  using getSessions_nothing_stored [of Map.empty stored_grammar "[''resource:default'']"]
  by simp

section \<open>Properties of createSession\<close>

text \<open>
  C1 does not hold of the code. Whenever the browser launch settles within the five
  minutes, \<open>createSession\<close> resolves at that instant with the function object
  \<open>waitForAuthenticationSession\<close>: not with a session record, whatever is written to
  the secret store, and not with the timeout, whether or not anything is written.
\<close>

theorem createSession_resolves_with_function:
  "d < 300000 \<Longrightarrow>
     createSession now (Some (d, Inr opened)) =
       Some (now + d, Inr (Function ''waitForAuthenticationSession''))"
  by (simp add: createSession_def Promise_race_def)

theorem createSession_resolves_with_function_witness:
  "(100::nat) < 300000
   \<and> createSession 0 (Some (100, Inr True)) =
       Some (100, Inr (Function ''waitForAuthenticationSession''))"
  using createSession_resolves_with_function [of 100 0 True] by simp

section \<open>Properties of promiseFromEvent\<close>

lemma settled_not_Pending [simp]: "settled c \<noteq> Pending"
  by (cases c) simp_all


















lemma drain_step:
  "jobs st = j # js \<Longrightarrow> drain st = drain (run_job j (st\<lparr>jobs := js\<rparr>))"
  by (simp add: drain.simps [of st] del: drain.simps)

lemma drain_nil: "jobs st = [] \<Longrightarrow> drain st = st"
  by (simp add: drain.simps [of st] del: drain.simps)



section \<open>Properties of waitForAuthenticationSession\<close>

lemma first_change:
  "drain (step key_adapter promiseFromEvent (Emit k)) =
     (if k \<noteq> ''gitpod.authSession''
      then \<lparr>inner = Rejected (Reason ''Cancelled''), outer = Rejected (Reason ''Cancelled''),
            disposals = 1, settlements = 1, jobs = []\<rparr>
      else \<lparr>inner = Fulfilled k, outer = Fulfilled k, disposals = 1, settlements = 1,
            jobs = []\<rparr>)"
  by (simp add: promiseFromEvent_def key_adapter_def listener_def settle_inner_def
        drain_step drain_nil del: drain.simps)

text \<open>
  A change that fires after the promise is settled, also before the microtasks have run,
  leaves the state as it is: the order of a further change and the microtasks does not
  matter.
\<close>

lemma key_adapter_settled:
  "inner st \<noteq> Pending \<Longrightarrow> step key_adapter st (Emit k) = st"
  by (simp add: key_adapter_def listener_def settle_inner_def)

lemma disposed_change:
  "disposals st \<noteq> 0 \<Longrightarrow> jobs st = [] \<Longrightarrow> drain (step key_adapter st (Emit k)) = st"
  by (simp add: drain_nil del: drain.simps)

lemma change_before_microtasks:
  "drain (step key_adapter (step key_adapter promiseFromEvent (Emit k)) (Emit k')) =
     drain (step key_adapter (drain (step key_adapter promiseFromEvent (Emit k))) (Emit k'))"
proof -
  let ?st = "step key_adapter promiseFromEvent (Emit k)"
  have "inner ?st \<noteq> Pending"
    by (simp add: promiseFromEvent_def key_adapter_def listener_def settle_inner_def)
  then have early: "step key_adapter ?st (Emit k') = ?st"
    by (rule key_adapter_settled)
  have "disposals (drain ?st) \<noteq> 0" and "jobs (drain ?st) = []"
    by (simp_all add: first_change del: drain.simps step.simps)
  then have late: "drain (step key_adapter (drain ?st) (Emit k')) = drain ?st"
    by (rule disposed_change)
  show ?thesis
    by (simp only: early late)
qed

text \<open>
  Once the promise is fulfilled the function reads what the store holds when it answers:
  the changes that land before the answer are applied.
\<close>

lemma await_get_answered:
  "disposals st \<noteq> 0 \<Longrightarrow> jobs st = [] \<Longrightarrow>
     await_get grammar store st (map Changed cs @ Answered # es) =
       (Some (JSON_parse grammar (or_empty (fold apply_change cs store ''gitpod.authSession''))),
        st)"
  by (induction cs arbitrary: store) (simp_all add: disposed_change del: drain.simps step.simps)

lemma await_get_unanswered:
  "disposals st \<noteq> 0 \<Longrightarrow> jobs st = [] \<Longrightarrow>
     await_get grammar store st (map Changed cs) = (None, st)"
  by (induction cs arbitrary: store) (simp_all add: disposed_change del: drain.simps step.simps)

text \<open>
  C8. The first change of the secret store during the wait decides it. A change of any
  key other than \<open>gitpod.authSession\<close> rejects the wait with \<open>Cancelled\<close>, whatever
  follows. A change of \<open>gitpod.authSession\<close> resolves the wait; the function then asks
  the store for the record and, when the store answers, parses what is stored under the
  key at that moment (the first change and the changes \<open>cs\<close> that landed before the
  answer applied); until the answer it has not returned. Either way the subscription
  ends disposed exactly once.
\<close>

theorem waitForAuthenticationSession_first_change:
  "waitForAuthenticationSession grammar store (Changed c # map Changed cs @ Answered # es) =
     (if change_key c \<noteq> ''gitpod.authSession''
      then (Some (Inl (Reason ''Cancelled'')),
            \<lparr>inner = Rejected (Reason ''Cancelled''), outer = Rejected (Reason ''Cancelled''),
             disposals = 1, settlements = 1, jobs = []\<rparr>)
      else (Some (JSON_parse grammar
              (or_empty (fold apply_change cs (apply_change c store) ''gitpod.authSession''))),
            \<lparr>inner = Fulfilled ''gitpod.authSession'', outer = Fulfilled ''gitpod.authSession'',
             disposals = 1, settlements = 1, jobs = []\<rparr>))
   \<and> waitForAuthenticationSession grammar store (Changed c # map Changed cs) =
     (if change_key c \<noteq> ''gitpod.authSession''
      then (Some (Inl (Reason ''Cancelled'')),
            \<lparr>inner = Rejected (Reason ''Cancelled''), outer = Rejected (Reason ''Cancelled''),
             disposals = 1, settlements = 1, jobs = []\<rparr>)
      else (None,
            \<lparr>inner = Fulfilled ''gitpod.authSession'', outer = Fulfilled ''gitpod.authSession'',
             disposals = 1, settlements = 1, jobs = []\<rparr>))
   \<and> (change_key c \<noteq> ''gitpod.authSession'' \<longrightarrow>
        waitForAuthenticationSession grammar store (Changed c # es) =
          (Some (Inl (Reason ''Cancelled'')),
           \<lparr>inner = Rejected (Reason ''Cancelled''), outer = Rejected (Reason ''Cancelled''),
            disposals = 1, settlements = 1, jobs = []\<rparr>))"
  by (simp add: waitForAuthenticationSession_def first_change Let_def
        await_get_answered await_get_unanswered
        del: drain.simps step.simps)

text \<open>
  The theorem at concrete inputs. The record is written twice before the store answers:
  the function returns the second one. A change of another key comes first: the wait is
  rejected.
\<close>

theorem waitForAuthenticationSession_first_change_witness:
  "waitForAuthenticationSession number_grammar Map.empty
     [Changed (Store ''gitpod.authSession'' ''1''),
      Changed (Store ''gitpod.authSession'' ''2''), Answered] =
     (Some (Inr (JNumber 2)),
      \<lparr>inner = Fulfilled ''gitpod.authSession'', outer = Fulfilled ''gitpod.authSession'',
       disposals = 1, settlements = 1, jobs = []\<rparr>)
   \<and> waitForAuthenticationSession number_grammar Map.empty
       [Changed (Store ''other'' ''1''), Changed (Store ''gitpod.authSession'' ''2''), Answered] =
     (Some (Inl (Reason ''Cancelled'')),
      \<lparr>inner = Rejected (Reason ''Cancelled''), outer = Rejected (Reason ''Cancelled''),
       disposals = 1, settlements = 1, jobs = []\<rparr>)"
  using waitForAuthenticationSession_first_change [of number_grammar Map.empty
        "Store ''gitpod.authSession'' ''1''" "[Store ''gitpod.authSession'' ''2'']" "[]"]
    waitForAuthenticationSession_first_change [of number_grammar Map.empty
        "Store ''other'' ''1''" "[Store ''gitpod.authSession'' ''2'']" "[]"]
  by (simp add: JSON_parse_def or_empty_def number_grammar_def)

section \<open>Properties of resolveAuthenticationSession\<close>

lemma resolve_snoc:
  "resolveAuthenticationSession requested token (arrivals @ [x]) =
     advance requested token (resolveAuthenticationSession requested token arrivals) x"
  by (simp add: resolveAuthenticationSession_def)

lemma resolve_Cons:
  "resolveAuthenticationSession requested token (x # arrivals) =
     foldl (advance requested token) (advance requested token (start requested token) x) arrivals"
  by (simp add: resolveAuthenticationSession_def)

lemma advance_returned:
  "stage v = Returned \<Longrightarrow> \<not> scopes_call_open v \<Longrightarrow> advance requested token v x = v"
  by (cases x) simp_all

lemma foldl_advance_returned:
  "stage v = Returned \<Longrightarrow> \<not> scopes_call_open v \<Longrightarrow>
     foldl (advance requested token) v arrivals = v"
  by (induction arrivals) (simp_all add: advance_returned)

text \<open>
  What holds of every run: a scope lookup is only ever sent with the hex digest of the
  token; while the function waits for the socket it has the user's reply and has sent
  the lookup; and a session is only returned after both.
\<close>

lemma resolve_invariant:
  fixes requested token arrivals
  defines "v \<equiv> resolveAuthenticationSession requested token arrivals"
    and "h \<equiv> hex (sha256 (utf8 token))"
  shows "(\<forall>x. Issued (GetGitpodTokenScopes x) \<in> set (trace v) \<longrightarrow> x = h)
    \<and> (case stage v of
          AwaitingUser \<Rightarrow> outcome v = None
        | AwaitingSocket u \<Rightarrow>
            outcome v = None \<and> UserReply (Inr u) \<in> set arrivals
            \<and> Issued (GetGitpodTokenScopes h) \<in> set (trace v)
        | Returned \<Rightarrow>
            (\<forall>s. outcome v = Some (Inr s) \<longrightarrow>
               (\<exists>u. UserReply (Inr u) \<in> set arrivals \<and> s = built requested token u)
               \<and> Issued (GetGitpodTokenScopes h) \<in> set (trace v)))"
  unfolding v_def h_def
proof (induction arrivals rule: rev_induct)
  case Nil
  show ?case
    by (simp add: resolveAuthenticationSession_def start_def)
next
  case (snoc x xs)
  show ?case
  proof (cases x)
    case (UserReply r)
    with snoc show ?thesis
      by (auto simp: resolve_snoc Let_def split: stage.splits sum.splits)
  next
    case (ScopesReply r)
    with snoc show ?thesis
      by (auto simp: resolve_snoc split: stage.splits)
  next
    case Turn
    with snoc show ?thesis
      by (auto simp: resolve_snoc built_def split: stage.splits)
  qed
qed

text \<open>
  C2 does not hold of the code. When \<open>getLoggedInUser\<close> fails, the function rejects with
  that failure and returns no session, but the run ends there: whatever arrives later,
  the trace is the opening of the transport, the call and its failure, and the transport
  is never closed.
\<close>

theorem resolveAuthenticationSession_failure_leaves_transport_open:
  "resolveAuthenticationSession requested token (UserReply (Inl e) # arrivals) =
     \<lparr>stage = Returned,
      trace = [TransportOpened token, Issued GetLoggedInUser, UserSettled],
      outcome = Some (Inl e)\<rparr>"
proof -
  let ?v = "advance requested token (start requested token) (UserReply (Inl e))"
  have v: "?v = \<lparr>stage = Returned,
      trace = [TransportOpened token, Issued GetLoggedInUser, UserSettled],
      outcome = Some (Inl e)\<rparr>"
    by (simp add: start_def)
  have "stage ?v = Returned" and "\<not> scopes_call_open ?v"
    unfolding v by (simp_all add: scopes_call_open_def)
  then have "foldl (advance requested token) ?v arrivals = ?v"
    by (rule foldl_advance_returned)
  then show ?thesis
    by (simp only: resolve_Cons v)
qed

text \<open>
  C5 does not hold of the code. The lookup of the token's scopes is sent after the
  user's reply has arrived, but it is not awaited: on the next turn the transport is
  closed and the session returned while the lookup is still open, and its reply, if one
  comes, comes after the transport was closed.
\<close>

theorem resolveAuthenticationSession_closes_before_scopes_reply:
  "resolveAuthenticationSession requested token [UserReply (Inr u), Turn] =
     \<lparr>stage = Returned,
      trace = [TransportOpened token, Issued GetLoggedInUser, UserSettled,
               Issued (GetGitpodTokenScopes (hex (sha256 (utf8 token)))),
               TransportClosed],
      outcome = Some (Inr (built requested token u))\<rparr>
   \<and> trace (resolveAuthenticationSession requested token
        [UserReply (Inr u), Turn, ScopesReply r]) =
       [TransportOpened token, Issued GetLoggedInUser, UserSettled,
        Issued (GetGitpodTokenScopes (hex (sha256 (utf8 token)))),
        TransportClosed, ScopesSettled]"
  by (simp add: resolveAuthenticationSession_def start_def Let_def scopes_call_open_def
        built_def)

text \<open>
  C7. Whenever \<open>resolveAuthenticationSession\<close> returns a session, it is the one with
  the id \<open>gitpod.user\<close>, the id and name of a user the server replied with, the scopes
  the caller passed and the caller's access token; and the scope lookup was sent with
  the hex SHA-256 digest of the access token, and with nothing else.
\<close>

theorem resolveAuthenticationSession_session:
  assumes "outcome (resolveAuthenticationSession requested token arrivals) = Some (Inr s)"
  shows "(\<exists>u. UserReply (Inr u) \<in> set arrivals
            \<and> s = \<lparr>session_id = ''gitpod.user'',
                    account = \<lparr>label = name u, account_id = user_id u\<rparr>,
                    scopes = requested,
                    accessToken = token\<rparr>)
    \<and> Issued (GetGitpodTokenScopes (hex (sha256 (utf8 token))))
        \<in> set (trace (resolveAuthenticationSession requested token arrivals))
    \<and> (\<forall>x. Issued (GetGitpodTokenScopes x)
              \<in> set (trace (resolveAuthenticationSession requested token arrivals))
          \<longrightarrow> x = hex (sha256 (utf8 token)))"
proof -
  let ?v = "resolveAuthenticationSession requested token arrivals"
  note inv = resolve_invariant [of requested token arrivals]
  have "stage ?v = Returned"
    using inv assms by (cases "stage ?v") simp_all
  with inv assms show ?thesis
    by (simp add: built_def)
qed

theorem resolveAuthenticationSession_session_witness:
  "outcome (resolveAuthenticationSession [''resource:default''] ''t0k''
      [UserReply (Inr example_user), Turn])
     = Some (Inr \<lparr>session_id = ''gitpod.user'',
                  account = \<lparr>label = Some ''Ada'', account_id = ''u-1''\<rparr>,
                  scopes = [''resource:default''],
                  accessToken = ''t0k''\<rparr>)
   \<and> Issued (GetGitpodTokenScopes (hex (sha256 (utf8 ''t0k''))))
       \<in> set (trace (resolveAuthenticationSession [''resource:default''] ''t0k''
            [UserReply (Inr example_user), Turn]))"
proof -
  have o: "outcome (resolveAuthenticationSession [''resource:default''] ''t0k''
      [UserReply (Inr example_user), Turn])
     = Some (Inr \<lparr>session_id = ''gitpod.user'',
                  account = \<lparr>label = Some ''Ada'', account_id = ''u-1''\<rparr>,
                  scopes = [''resource:default''],
                  accessToken = ''t0k''\<rparr>)"
    by (simp add: resolveAuthenticationSession_def start_def Let_def example_user_def)
  from resolveAuthenticationSession_session [OF o] o show ?thesis
    by blast
qed

end
